theory Spec2Isabelle
  imports Complex_Main
begin

section \<open>Data model\<close>

text \<open>
  The order pipeline of the store backend: \<^verbatim>\<open>createOrder\<close>, \<^verbatim>\<open>updateOrderStatus\<close> and
  \<^verbatim>\<open>updatePaymentStatus\<close> of \<^verbatim>\<open>controllers/orderController.js\<close>, the coupon methods of
  \<^verbatim>\<open>models/Coupon.js\<close>, \<^verbatim>\<open>isInStock\<close> of \<^verbatim>\<open>models/Product.js\<close>, the hooks of
  \<^verbatim>\<open>models/Order.js\<close> and the handlers of \<^verbatim>\<open>utils/realtimeEvents.js\<close>.

  JavaScript numbers are modelled exactly: stock levels, quantities, counters and
  timestamps are \<^typ>\<open>int\<close>, money is \<^typ>\<open>rat\<close>; the rounding of binary floating point
  is not represented. An ObjectId is a \<^typ>\<open>nat\<close>. A field that may be absent
  (\<^verbatim>\<open>undefined\<close> or \<^verbatim>\<open>null\<close>) is an \<^typ>\<open>'a option\<close>.
\<close>

type_synonym objectId = nat

record product =
  p_id :: objectId
  p_name :: string
  price :: rat
  sku :: string
  stock :: int
  lowStockThreshold :: int
  trackQuantity :: bool
  allowBackorder :: bool
  p_isActive :: bool
  totalSales :: int
  images :: "string list"

record usage =
  u_user :: objectId
  u_order :: "objectId option"
  u_discountAmount :: rat

record coupon =
  code :: string
  discountType :: string
  discountValue :: rat
  minimumOrderAmount :: rat
  maximumDiscountAmount :: "rat option"
  usageLimit :: "int option"
  usageLimitPerUser :: "int option"
  usedCount :: int
  isActive :: bool
  startDate :: int
  endDate :: int
  applicableProducts :: "objectId list"
  applicableCategories :: "objectId list"
  applicableUsers :: "objectId list"
  usageHistory :: "usage list"

record orderItem =
  oi_product :: objectId
  oi_name :: string
  oi_image :: string
  oi_price :: rat
  oi_quantity :: int
  oi_variant :: "(string \<times> string) option"
  oi_sku :: string

record address =
  firstName :: string
  lastName :: string
  address1 :: string
  city :: string
  state :: string
  zipCode :: string
  country :: string

record statusEntry =
  se_status :: string
  se_timestamp :: int
  se_note :: string

record couponData =
  cd_code :: string
  cd_discountType :: string
  cd_discountValue :: rat

record order =
  o_id :: objectId
  orderNumber :: "string option"
  user :: objectId
  items :: "orderItem list"
  shippingAddress :: "address option"
  billingAddress :: "address option"
  paymentMethod :: string
  paymentStatus :: string
  paymentId :: "string option"
  orderStatus :: string
  subtotal :: rat
  taxAmount :: rat
  shippingAmount :: rat
  discountAmount :: rat
  totalAmount :: rat
  o_coupon :: "couponData option"
  o_notes :: "string option"
  trackingNumber :: "string option"
  shippingCarrier :: "string option"
  deliveredAt :: "int option"
  cancelledAt :: "int option"
  cancellationReason :: "string option"
  statusHistory :: "statusEntry list"

text \<open>
  The payloads handed to the emit helpers of \<^verbatim>\<open>websocketController.js\<close>. An event is
  recorded where the helper is called; delivery by the socket transport is outside the
  model.
\<close>

record stockData =
  sd_stock :: int
  sd_previousStock :: int
  sd_isInStock :: bool
  sd_lowStock :: bool
  sd_stockChange :: int

datatype event =
    StockUpdate objectId stockData
  | LowStockAlert objectId string int int
  | AnalyticsStockUpdate objectId stockData
  | AnalyticsNewOrder objectId rat nat objectId string
  | OrderUpdate objectId objectId string string rat
  | AnalyticsOrderStatusChange objectId string string rat
  | PaymentUpdate objectId objectId string string rat
  | AnalyticsPaymentStatusChange objectId string string rat

record store =
  products :: "product list"
  coupons :: "coupon list"
  orders :: "order list"
  events :: "event list"

text \<open>
  The responses of the controllers. The 400 answers of \<^verbatim>\<open>createOrder\<close> are told apart
  by their message; every exception caught by a controller's \<^verbatim>\<open>catch\<close> is the 500
  answer \<open>InternalError\<close>.
\<close>

datatype failure =
    ProductNotFound objectId
  | ProductNotAvailable string
  | InsufficientStock string
  | InvalidCoupon
  | OrderNotFound
  | InternalError

section \<open>Product\<close>

text \<open>\<^verbatim>\<open>productSchema.methods.isInStock\<close>.\<close>

definition isInStock :: "product \<Rightarrow> int \<Rightarrow> bool" where
  "isInStock p quantity =
     (if \<not> trackQuantity p then True
      else if allowBackorder p then True
      else stock p \<ge> quantity)"

definition Product_findById :: "store \<Rightarrow> objectId \<Rightarrow> product option" where
  "Product_findById st i = find (\<lambda>p. p_id p = i) (products st)"

text \<open>
  \<^verbatim>\<open>product.save()\<close> after \<^verbatim>\<open>handleNewOrder\<close> has changed \<^verbatim>\<open>stock\<close> and
  \<^verbatim>\<open>totalSales\<close>: the schema's validator \<^verbatim>\<open>min: [0, "Stock cannot be negative"]\<close> runs on
  the modified path and a failing validator rejects the save, which writes nothing.
  \<^verbatim>\<open>totalSales\<close> has no validator; the paths \<^verbatim>\<open>handleNewOrder\<close> does not touch are taken
  to be valid as stored.
\<close>

definition Product_validate :: "product \<Rightarrow> bool" where
  "Product_validate p = (stock p \<ge> 0)"

definition Product_save :: "store \<Rightarrow> product \<Rightarrow> failure + store" where
  "Product_save st p =
     (if Product_validate p
      then Inr (st\<lparr>products := map (\<lambda>q. if p_id q = p_id p then p else q) (products st)\<rparr>)
      else Inl InternalError)"

section \<open>Coupon\<close>

text \<open>
  The source tests optional numbers and strings by JavaScript truthiness:
  \<^verbatim>\<open>undefined\<close>, \<^verbatim>\<open>0\<close> and the empty string are falsy. In the definitions below
  \<^verbatim>\<open>!this.usageLimit\<close>, \<^verbatim>\<open>if (this.usageLimitPerUser)\<close> and
  \<^verbatim>\<open>this.maximumDiscountAmount && ...\<close> are therefore a case on the option with a test
  against 0 in the \<open>Some\<close> branch.
\<close>

definition truthy :: "string option \<Rightarrow> bool" where
  "truthy x = (case x of None \<Rightarrow> False | Some v \<Rightarrow> v \<noteq> [])"

text \<open>\<^verbatim>\<open>couponSchema.methods.isValid\<close>; the clock is the argument \<open>now\<close>.\<close>

definition isValid :: "int \<Rightarrow> coupon \<Rightarrow> bool" where
  "isValid now c =
     (isActive c \<and> startDate c \<le> now \<and> endDate c \<ge> now \<and>
      (case usageLimit c of None \<Rightarrow> True | Some l \<Rightarrow> l = 0 \<or> usedCount c < l))"

text \<open>\<^verbatim>\<open>couponSchema.methods.canUserUse\<close>.\<close>

definition canUserUse :: "int \<Rightarrow> coupon \<Rightarrow> objectId \<Rightarrow> bool" where
  "canUserUse now c userId =
     (if \<not> isValid now c then False
      else if length (applicableUsers c) > 0 \<and> userId \<notin> set (applicableUsers c) then False
      else case usageLimitPerUser c of
             None \<Rightarrow> True
           | Some l \<Rightarrow>
               if l \<noteq> 0 \<and> int (length (filter (\<lambda>u. u_user u = userId) (usageHistory c))) \<ge> l
               then False else True)"

text \<open>
  \<^verbatim>\<open>couponSchema.methods.calculateDiscount\<close>. The items are not read by the source:
  with a product or category restriction the applicable amount is set to 0.
\<close>

definition calculateDiscount :: "int \<Rightarrow> coupon \<Rightarrow> rat \<Rightarrow> orderItem list \<Rightarrow> rat" where
  "calculateDiscount now c orderAmount its =
     (if \<not> isValid now c then 0
      else
        let applicableAmount =
              (if length (applicableProducts c) > 0 \<or> length (applicableCategories c) > 0
               then 0 else orderAmount)
        in if applicableAmount < minimumOrderAmount c then 0
           else
             let d0 = (if discountType c = ''percentage''
                       then (applicableAmount * discountValue c) / 100
                       else discountValue c);
                 d1 = (case maximumDiscountAmount c of
                         None \<Rightarrow> d0
                       | Some m \<Rightarrow> if m \<noteq> 0 \<and> d0 > m then m else d0)
             in min d1 applicableAmount)"

text \<open>
  A query on \<^verbatim>\<open>code\<close> casts the filter value through the setters the schema declares for
  that path, \<^verbatim>\<open>uppercase: true\<close> and \<^verbatim>\<open>trim: true\<close>, before it is compared. \<^verbatim>\<open>trim\<close>
  removes the ASCII white space at both ends.
\<close>

text \<open>\<^verbatim>\<open>String.prototype.toUpperCase\<close> on ASCII letters.\<close>

definition upper_char :: "char \<Rightarrow> char" where
  "upper_char ch =
     (case map_of (zip ''abcdefghijklmnopqrstuvwxyz'' ''ABCDEFGHIJKLMNOPQRSTUVWXYZ'') ch of
        None \<Rightarrow> ch
      | Some u \<Rightarrow> u)"

definition toUpperCase :: "string \<Rightarrow> string" where
  "toUpperCase s = map upper_char s"

definition isSpace :: "char \<Rightarrow> bool" where
  "isSpace ch = (ch \<in> set [CHR 0x20, CHR 0x09, CHR 0x0A, CHR 0x0B, CHR 0x0C, CHR 0x0D])"

definition trim :: "string \<Rightarrow> string" where
  "trim s = rev (dropWhile isSpace (rev (dropWhile isSpace s)))"

definition cast_code :: "string \<Rightarrow> string" where
  "cast_code s = toUpperCase (trim s)"

definition Coupon_findOne :: "store \<Rightarrow> string \<Rightarrow> coupon option" where
  "Coupon_findOne st cd = find (\<lambda>c. code c = cast_code cd) (coupons st)"

text \<open>
  \<^verbatim>\<open>coupon.save()\<close>: the \<^verbatim>\<open>pre("save")\<close> hook rejects a coupon whose end date is not
  after its start date, and document validation checks the validators the schema
  declares on the paths \<^verbatim>\<open>createOrder\<close> modifies: \<^verbatim>\<open>usedCount\<close> has \<^verbatim>\<open>min: 0\<close>, and in
  every \<^verbatim>\<open>usageHistory\<close> entry \<^verbatim>\<open>user\<close>, \<^verbatim>\<open>order\<close> and \<^verbatim>\<open>discountAmount\<close> are
  \<^verbatim>\<open>required: true\<close> (a \<^verbatim>\<open>null\<close> fails \<^verbatim>\<open>required\<close>). A rejected save writes nothing.
\<close>

definition Coupon_validate :: "coupon \<Rightarrow> bool" where
  "Coupon_validate c =
     (endDate c > startDate c \<and> usedCount c \<ge> 0 \<and>
      list_all (\<lambda>u. u_order u \<noteq> None) (usageHistory c))"

definition Coupon_save :: "store \<Rightarrow> coupon \<Rightarrow> failure + store" where
  "Coupon_save st c =
     (if Coupon_validate c
      then Inr (st\<lparr>coupons := map (\<lambda>d. if code d = code c then c else d) (coupons st)\<rparr>)
      else Inl InternalError)"

section \<open>Stock events\<close>

text \<open>\<^verbatim>\<open>handleStockChange\<close> of \<^verbatim>\<open>utils/realtimeEvents.js\<close>: the events it emits, in order.\<close>

definition handleStockChange :: "objectId \<Rightarrow> int \<Rightarrow> int \<Rightarrow> product \<Rightarrow> event list" where
  "handleStockChange productId oldStock newStock p =
     (let sd = \<lparr>sd_stock = newStock, sd_previousStock = oldStock,
                sd_isInStock = isInStock p 1,
                sd_lowStock = (newStock \<le> lowStockThreshold p),
                sd_stockChange = newStock - oldStock\<rparr>
      in [StockUpdate productId sd]
         @ (if newStock \<le> lowStockThreshold p \<and> oldStock > lowStockThreshold p
            then [LowStockAlert productId (p_name p) newStock (lowStockThreshold p)] else [])
         @ [AnalyticsStockUpdate productId sd])"

text \<open>
  \<^verbatim>\<open>validateCoupon\<close> of \<^verbatim>\<open>controllers/couponController.js\<close>, the check a client runs
  before checkout. The last answer carries the coupon summary, the discount and the
  final amount.
\<close>

datatype couponCheck =
    CouponNotFound
  | CouponExpiredOrInactive
  | CouponUsageLimitReached
  | MinimumOrderRequired rat
  | CouponIsValid couponData rat rat

definition validateCoupon ::
    "int \<Rightarrow> store \<Rightarrow> objectId \<Rightarrow> string \<Rightarrow> rat \<Rightarrow> orderItem list \<Rightarrow> couponCheck" where
  "validateCoupon now st userId cd orderAmount its =
     (case Coupon_findOne st (toUpperCase cd) of
        None \<Rightarrow> CouponNotFound
      | Some c \<Rightarrow>
          if \<not> isValid now c then CouponExpiredOrInactive
          else if \<not> canUserUse now c userId then CouponUsageLimitReached
          else
            let d = calculateDiscount now c orderAmount its
            in if d = 0 then MinimumOrderRequired (minimumOrderAmount c)
               else CouponIsValid
                      \<lparr>cd_code = code c, cd_discountType = discountType c,
                       cd_discountValue = discountValue c\<rparr>
                      d (max 0 (orderAmount - d)))"

section \<open>Order\<close>

definition paymentMethod_enum :: "string list" where
  "paymentMethod_enum = [''credit_card'', ''debit_card'', ''paypal'', ''stripe'', ''cash_on_delivery'']"

definition paymentStatus_enum :: "string list" where
  "paymentStatus_enum = [''pending'', ''paid'', ''failed'', ''refunded'', ''partially_refunded'']"

definition orderStatus_enum :: "string list" where
  "orderStatus_enum =
     [''pending'', ''confirmed'', ''processing'', ''shipped'', ''delivered'', ''cancelled'',
      ''returned'']"

text \<open>
  The validators of \<^verbatim>\<open>orderItemSchema\<close>, \<^verbatim>\<open>shippingAddressSchema\<close> and
  \<^verbatim>\<open>orderSchema\<close>: \<^verbatim>\<open>required\<close> (an empty string fails it), \<^verbatim>\<open>min\<close> and \<^verbatim>\<open>enum\<close>.
  \<^verbatim>\<open>orderNumber\<close> is \<^verbatim>\<open>required: true\<close> as well.
\<close>

definition address_validate :: "address option \<Rightarrow> bool" where
  "address_validate x =
     (case x of
        None \<Rightarrow> False
      | Some a \<Rightarrow> firstName a \<noteq> [] \<and> lastName a \<noteq> [] \<and> address1 a \<noteq> [] \<and> city a \<noteq> [] \<and>
                  state a \<noteq> [] \<and> zipCode a \<noteq> [] \<and> country a \<noteq> [])"

definition orderItem_validate :: "orderItem \<Rightarrow> bool" where
  "orderItem_validate i = (oi_name i \<noteq> [] \<and> oi_price i \<ge> 0 \<and> oi_quantity i \<ge> 1)"

definition Order_validate :: "order \<Rightarrow> bool" where
  "Order_validate ord =
     ((case orderNumber ord of None \<Rightarrow> False | Some n \<Rightarrow> n \<noteq> []) \<and>
      list_all orderItem_validate (items ord) \<and>
      address_validate (shippingAddress ord) \<and> address_validate (billingAddress ord) \<and>
      paymentMethod ord \<in> set paymentMethod_enum \<and>
      paymentStatus ord \<in> set paymentStatus_enum \<and>
      orderStatus ord \<in> set orderStatus_enum \<and>
      subtotal ord \<ge> 0 \<and> taxAmount ord \<ge> 0 \<and> shippingAmount ord \<ge> 0 \<and>
      discountAmount ord \<ge> 0 \<and> totalAmount ord \<ge> 0)"

text \<open>
  The second \<^verbatim>\<open>pre("save")\<close> hook of \<^verbatim>\<open>models/Order.js\<close>, ``Add status to history when
  status changes''. Its two tests are the arguments \<open>modified\<close>
  (\<^verbatim>\<open>this.isModified("orderStatus")\<close>) and \<open>isNew\<close>.
\<close>

definition statusHistory_hook :: "bool \<Rightarrow> bool \<Rightarrow> int \<Rightarrow> order \<Rightarrow> order" where
  "statusHistory_hook modified isNew now ord =
     (if modified \<and> \<not> isNew
      then ord\<lparr>statusHistory := statusHistory ord @
                 [\<lparr>se_status = orderStatus ord, se_timestamp = now,
                   se_note = ''Order status changed to '' @ orderStatus ord\<rparr>]\<rparr>
      else ord)"

text \<open>
  The first \<^verbatim>\<open>pre("save")\<close> hook of \<^verbatim>\<open>models/Order.js\<close>, ``Generate order number before
  saving'': for a new document the number is \<^verbatim>\<open>ORD-\<close>, the clock, a dash and the count of
  stored orders plus one, padded with zeros to four digits.
\<close>

definition digit :: "nat \<Rightarrow> char" where
  "digit n = ''0123456789'' ! (n mod 10)"

function show_nat :: "nat \<Rightarrow> string" where
  "show_nat n = (if n < 10 then [digit n] else show_nat (n div 10) @ [digit n])"
  by pat_completeness auto
termination
  by (relation "measure id") auto

declare show_nat.simps [simp del]

definition show_int :: "int \<Rightarrow> string" where
  "show_int i = (if i < 0 then CHR ''-'' # show_nat (nat (- i)) else show_nat (nat i))"

definition padStart :: "nat \<Rightarrow> char \<Rightarrow> string \<Rightarrow> string" where
  "padStart n ch s = replicate (n - length s) ch @ s"

definition orderNumber_hook :: "bool \<Rightarrow> int \<Rightarrow> nat \<Rightarrow> order \<Rightarrow> order" where
  "orderNumber_hook isNew now count ord =
     (if isNew
      then ord\<lparr>orderNumber :=
                 Some (''ORD-'' @ show_int now @ ''-'' @ padStart 4 CHR ''0'' (show_nat (count + 1)))\<rparr>
      else ord)"

text \<open>
  \<^verbatim>\<open>Order.create(doc)\<close> builds a new document and saves it. Saving validates the document
  first: validation is the first of the save hooks, ahead of the two hooks the schema
  registers with \<^verbatim>\<open>pre("save")\<close>, so the document must carry its \<^verbatim>\<open>orderNumber\<close> before the
  hook that generates one has run. Then come the two hooks with \<open>isNew\<close> true and the
  insert, which the unique index on \<^verbatim>\<open>orderNumber\<close> refuses for a number already stored. A
  rejected document throws and writes nothing.
\<close>

definition Order_create :: "int \<Rightarrow> store \<Rightarrow> order \<Rightarrow> failure + (store \<times> order)" where
  "Order_create now st doc =
     (let ord = doc\<lparr>o_id := length (orders st)\<rparr>
      in if \<not> Order_validate ord then Inl InternalError
         else
           let ord1 = orderNumber_hook True now (length (orders st)) ord;
               ord2 = statusHistory_hook True True now ord1
           in if orderNumber ord2 \<in> set (map orderNumber (orders st)) then Inl InternalError
              else Inr (st\<lparr>orders := orders st @ [ord2]\<rparr>, ord2))"

definition Order_findById :: "store \<Rightarrow> objectId \<Rightarrow> order option" where
  "Order_findById st i = find (\<lambda>ord. o_id ord = i) (orders st)"

text \<open>
  The update document of \<^verbatim>\<open>findByIdAndUpdate\<close>: a path that is \<open>None\<close> is not part of
  the update. With \<^verbatim>\<open>runValidators: true\<close> the validators of the updated paths run, here
  the two \<^verbatim>\<open>enum\<close>s; the \<^verbatim>\<open>pre("save")\<close> hooks do not run, since
  \<^verbatim>\<open>findByIdAndUpdate\<close> is a query and saves no document.
\<close>

record updateData =
  ud_orderStatus :: "string option"
  ud_paymentStatus :: "string option"
  ud_paymentId :: "string option"
  ud_trackingNumber :: "string option"
  ud_shippingCarrier :: "string option"
  ud_notes :: "string option"
  ud_deliveredAt :: "int option"
  ud_cancelledAt :: "int option"
  ud_cancellationReason :: "string option"

definition set_path :: "'a option \<Rightarrow> 'a \<Rightarrow> 'a" where
  "set_path x old = (case x of None \<Rightarrow> old | Some v \<Rightarrow> v)"

definition set_opt_path :: "'a option \<Rightarrow> 'a option \<Rightarrow> 'a option" where
  "set_opt_path x old = (case x of None \<Rightarrow> old | Some v \<Rightarrow> Some v)"

definition apply_update :: "updateData \<Rightarrow> order \<Rightarrow> order" where
  "apply_update ud ord =
     ord\<lparr>orderStatus := set_path (ud_orderStatus ud) (orderStatus ord),
         paymentStatus := set_path (ud_paymentStatus ud) (paymentStatus ord),
         paymentId := set_opt_path (ud_paymentId ud) (paymentId ord),
         trackingNumber := set_opt_path (ud_trackingNumber ud) (trackingNumber ord),
         shippingCarrier := set_opt_path (ud_shippingCarrier ud) (shippingCarrier ord),
         o_notes := set_opt_path (ud_notes ud) (o_notes ord),
         deliveredAt := set_opt_path (ud_deliveredAt ud) (deliveredAt ord),
         cancelledAt := set_opt_path (ud_cancelledAt ud) (cancelledAt ord),
         cancellationReason := set_opt_path (ud_cancellationReason ud) (cancellationReason ord)\<rparr>"

definition update_validate :: "updateData \<Rightarrow> bool" where
  "update_validate ud =
     ((case ud_orderStatus ud of None \<Rightarrow> True | Some s \<Rightarrow> s \<in> set orderStatus_enum) \<and>
      (case ud_paymentStatus ud of None \<Rightarrow> True | Some s \<Rightarrow> s \<in> set paymentStatus_enum))"

definition Order_findByIdAndUpdate ::
    "store \<Rightarrow> objectId \<Rightarrow> updateData \<Rightarrow> failure + (store \<times> order option)" where
  "Order_findByIdAndUpdate st i ud =
     (if \<not> update_validate ud then Inl InternalError
      else case Order_findById st i of
             None \<Rightarrow> Inr (st, None)
           | Some ord \<Rightarrow>
               let ord' = apply_update ud ord
               in Inr (st\<lparr>orders := map (\<lambda>x. if o_id x = i then ord' else x) (orders st)\<rparr>,
                       Some ord'))"

section \<open>Order events\<close>

definition handleOrderStatusChange :: "order \<Rightarrow> string \<Rightarrow> string \<Rightarrow> event list" where
  "handleOrderStatusChange ord oldStatus newStatus =
     [OrderUpdate (user ord) (o_id ord) oldStatus newStatus (totalAmount ord),
      AnalyticsOrderStatusChange (o_id ord) oldStatus newStatus (totalAmount ord)]"

definition handlePaymentStatusChange :: "order \<Rightarrow> string \<Rightarrow> string \<Rightarrow> event list" where
  "handlePaymentStatusChange ord oldStatus newStatus =
     [PaymentUpdate (user ord) (o_id ord) oldStatus newStatus (totalAmount ord),
      AnalyticsPaymentStatusChange (o_id ord) oldStatus newStatus (totalAmount ord)]"

text \<open>
  The body of the loop of \<^verbatim>\<open>handleNewOrder\<close> for one line item: read the product, and
  if it exists and tracks its quantity, subtract, save and report the change. A rejected
  save throws out of the loop.
\<close>

definition updateStockItem :: "store \<Rightarrow> orderItem \<Rightarrow> store \<times> (failure + unit)" where
  "updateStockItem st item =
     (case Product_findById st (oi_product item) of
        None \<Rightarrow> (st, Inr ())
      | Some p \<Rightarrow>
          if trackQuantity p then
            let oldStock = stock p;
                p' = p\<lparr>stock := stock p - oi_quantity item,
                       totalSales := totalSales p + oi_quantity item\<rparr>
            in case Product_save st p' of
                 Inl e \<Rightarrow> (st, Inl e)
               | Inr st' \<Rightarrow>
                   (st'\<lparr>events := events st' @
                          handleStockChange (oi_product item) oldStock (stock p') p'\<rparr>, Inr ())
          else (st, Inr ()))"

fun updateStock :: "store \<Rightarrow> orderItem list \<Rightarrow> store \<times> (failure + unit)" where
  "updateStock st [] = (st, Inr ())"
| "updateStock st (item # rest) =
     (case updateStockItem st item of
        (st', Inl e) \<Rightarrow> (st', Inl e)
      | (st', Inr u) \<Rightarrow> updateStock st' rest)"

definition handleNewOrder :: "store \<Rightarrow> order \<Rightarrow> store \<times> (failure + unit)" where
  "handleNewOrder st ord =
     updateStock
       (st\<lparr>events := events st @
              [AnalyticsNewOrder (o_id ord) (totalAmount ord) (length (items ord)) (user ord)
                 (orderStatus ord)]\<rparr>)
       (items ord)"

section \<open>createOrder\<close>

record itemReq =
  i_product :: objectId
  i_quantity :: int
  i_variant :: "(string \<times> string) option"

record createOrderReq =
  r_user :: objectId
  r_items :: "itemReq list"
  r_shippingAddress :: "address option"
  r_billingAddress :: "address option"
  r_paymentMethod :: string
  r_couponCode :: "string option"
  r_notes :: "string option"

text \<open>
  The loop ``Validate items and calculate totals'': the running \<open>subtotal\<close> and the
  \<open>orderItems\<close> collected so far are the accumulators; each of the three early
  \<^verbatim>\<open>return res.status(400)\<close> is an \<open>Inl\<close>.
\<close>

fun validateItems ::
    "store \<Rightarrow> itemReq list \<Rightarrow> rat \<Rightarrow> orderItem list \<Rightarrow> failure + (rat \<times> orderItem list)" where
  "validateItems st [] sub ois = Inr (sub, ois)"
| "validateItems st (item # rest) sub ois =
     (case Product_findById st (i_product item) of
        None \<Rightarrow> Inl (ProductNotFound (i_product item))
      | Some p \<Rightarrow>
          if \<not> p_isActive p then Inl (ProductNotAvailable (p_name p))
          else if \<not> isInStock p (i_quantity item) then Inl (InsufficientStock (p_name p))
          else
            let itemTotal = price p * of_int (i_quantity item)
            in validateItems st rest (sub + itemTotal)
                 (ois @
                    [\<lparr>oi_product = p_id p, oi_name = p_name p,
                      oi_image = (case images p of [] \<Rightarrow> [] | u # _ \<Rightarrow> u),
                      oi_price = price p, oi_quantity = i_quantity item,
                      oi_variant = i_variant item, oi_sku = sku p\<rparr>]))"

text \<open>
  ``Apply coupon if provided'', up to the \<^verbatim>\<open>push\<close> on the usage history: the discount,
  the coupon summary for the order, and the coupon document as changed in memory
  (\<^verbatim>\<open>usedCount\<close> plus one, a usage entry whose \<^verbatim>\<open>order\<close> is \<^verbatim>\<open>null\<close>), still unsaved.
\<close>

definition applyCoupon ::
    "int \<Rightarrow> store \<Rightarrow> createOrderReq \<Rightarrow> rat \<Rightarrow> orderItem list
       \<Rightarrow> failure + (rat \<times> couponData option \<times> coupon option)" where
  "applyCoupon now st req sub ois =
     (if \<not> truthy (r_couponCode req) then Inr (0, None, None)
      else case Coupon_findOne st (toUpperCase (case r_couponCode req of Some cc \<Rightarrow> cc | None \<Rightarrow> [])) of
             None \<Rightarrow> Inl InvalidCoupon
           | Some c \<Rightarrow>
               if \<not> canUserUse now c (r_user req) then Inl InvalidCoupon
               else
                 let disc = calculateDiscount now c sub ois;
                     cdata = \<lparr>cd_code = code c, cd_discountType = discountType c,
                              cd_discountValue = discountValue c\<rparr>;
                     c' = c\<lparr>usedCount := usedCount c + 1,
                            usageHistory := usageHistory c @
                              [\<lparr>u_user = r_user req, u_order = None,
                                u_discountAmount = disc\<rparr>]\<rparr>
                 in Inr (disc, Some cdata, Some c'))"

text \<open>
  \<^verbatim>\<open>createOrder\<close> from its first line to the call of \<^verbatim>\<open>Order.create\<close>: the item loop,
  the coupon with its \<^verbatim>\<open>coupon.save()\<close>, the totals, and the document handed to
  \<^verbatim>\<open>Order.create\<close>. The source passes no \<^verbatim>\<open>orderNumber\<close>; the status fields get the schema's
  defaults. An exception of \<^verbatim>\<open>coupon.save()\<close> lands in the \<^verbatim>\<open>catch\<close>.
\<close>

definition createOrder_doc ::
    "int \<Rightarrow> store \<Rightarrow> createOrderReq \<Rightarrow> store \<times> (failure + order)" where
  "createOrder_doc now st req =
     (case validateItems st (r_items req) 0 [] of
        Inl e \<Rightarrow> (st, Inl e)
      | Inr (sub, ois) \<Rightarrow>
          (case applyCoupon now st req sub ois of
             Inl e \<Rightarrow> (st, Inl e)
           | Inr (disc, cdata, cdoc) \<Rightarrow>
               (case (case cdoc of None \<Rightarrow> Inr st | Some c' \<Rightarrow> Coupon_save st c') of
                  Inl e \<Rightarrow> (st, Inl e)
                | Inr st1 \<Rightarrow>
                    let tax = 0;
                        ship = 0;
                        total = sub + tax + ship - disc
                    in (st1, Inr
                              \<lparr>o_id = 0, orderNumber = None, user = r_user req, items = ois,
                               shippingAddress = r_shippingAddress req,
                               billingAddress = r_billingAddress req,
                               paymentMethod = r_paymentMethod req,
                               paymentStatus = ''pending'', paymentId = None,
                               orderStatus = ''pending'',
                               subtotal = sub, taxAmount = tax,
                               shippingAmount = ship,
                               discountAmount = disc, totalAmount = total,
                               o_coupon = cdata, o_notes = r_notes req,
                               trackingNumber = None, shippingCarrier = None,
                               deliveredAt = None, cancelledAt = None,
                               cancellationReason = None, statusHistory = []\<rparr>))))"

text \<open>
  \<^verbatim>\<open>createOrder\<close> up to the return of \<^verbatim>\<open>Order.create\<close>. An exception of \<^verbatim>\<open>Order.create\<close>
  lands in the \<^verbatim>\<open>catch\<close>; what was written before it stays written.
\<close>

definition createOrder_admit ::
    "int \<Rightarrow> store \<Rightarrow> createOrderReq \<Rightarrow> store \<times> (failure + order)" where
  "createOrder_admit now st req =
     (case createOrder_doc now st req of
        (st1, Inl e) \<Rightarrow> (st1, Inl e)
      | (st1, Inr doc) \<Rightarrow>
          (case Order_create now st1 doc of
             Inl e \<Rightarrow> (st1, Inl e)
           | Inr (st2, ord) \<Rightarrow> (st2, Inr ord)))"

text \<open>
  ``Update coupon with order ID'': \<^verbatim>\<open>Coupon.findOneAndUpdate\<close> with the filter
  \<^verbatim>\<open>{code, "usageHistory.order": null}\<close> sets the \<^verbatim>\<open>order\<close> of the first matching usage
  entry of the first matching coupon; the code is cast as in \<open>Coupon_findOne\<close>.
\<close>

fun set_first_null :: "objectId \<Rightarrow> usage list \<Rightarrow> usage list" where
  "set_first_null i [] = []"
| "set_first_null i (u # us) =
     (if u_order u = None then u\<lparr>u_order := Some i\<rparr> # us else u # set_first_null i us)"

fun Coupon_setOrder :: "string \<Rightarrow> objectId \<Rightarrow> coupon list \<Rightarrow> coupon list" where
  "Coupon_setOrder cd i [] = []"
| "Coupon_setOrder cd i (c # cs) =
     (if code c = cast_code cd \<and> list_ex (\<lambda>u. u_order u = None) (usageHistory c)
      then c\<lparr>usageHistory := set_first_null i (usageHistory c)\<rparr> # cs
      else c # Coupon_setOrder cd i cs)"

text \<open>
  \<^verbatim>\<open>createOrder\<close> after \<^verbatim>\<open>Order.create\<close> has returned: the coupon's order id, then
  \<^verbatim>\<open>handleNewOrder\<close>, then the 201 answer. An exception of \<^verbatim>\<open>handleNewOrder\<close> lands in the
  same \<^verbatim>\<open>catch\<close>, with the order already stored.
\<close>

definition createOrder_finish ::
    "store \<Rightarrow> createOrderReq \<Rightarrow> order \<Rightarrow> store \<times> (failure + order)" where
  "createOrder_finish st req ord =
     (let st1 = (if truthy (r_couponCode req) \<and> o_coupon ord \<noteq> None
                 then st\<lparr>coupons :=
                           Coupon_setOrder
                             (toUpperCase (case r_couponCode req of Some cc \<Rightarrow> cc | None \<Rightarrow> []))
                             (o_id ord) (coupons st)\<rparr>
                 else st)
      in case handleNewOrder st1 ord of
           (st2, Inl e) \<Rightarrow> (st2, Inl e)
         | (st2, Inr u) \<Rightarrow> (st2, Inr ord))"

definition createOrder :: "int \<Rightarrow> store \<Rightarrow> createOrderReq \<Rightarrow> store \<times> (failure + order)" where
  "createOrder now st req =
     (case createOrder_admit now st req of
        (st1, Inl e) \<Rightarrow> (st1, Inl e)
      | (st1, Inr ord) \<Rightarrow> createOrder_finish st1 req ord)"

section \<open>Status updates\<close>

record statusReq =
  s_id :: objectId
  s_orderStatus :: string
  s_trackingNumber :: "string option"
  s_shippingCarrier :: "string option"
  s_notes :: "string option"

definition given :: "string option \<Rightarrow> string option" where
  "given x = (if truthy x then x else None)"

text \<open>\<^verbatim>\<open>updateOrderStatus\<close>: 404 for an unknown id, otherwise one \<^verbatim>\<open>findByIdAndUpdate\<close>.\<close>

definition updateOrderStatus :: "int \<Rightarrow> store \<Rightarrow> statusReq \<Rightarrow> store \<times> (failure + order)" where
  "updateOrderStatus now st req =
     (case Order_findById st (s_id req) of
        None \<Rightarrow> (st, Inl OrderNotFound)
      | Some ord \<Rightarrow>
          let oldStatus = orderStatus ord;
              ud = \<lparr>ud_orderStatus = Some (s_orderStatus req),
                    ud_paymentStatus = None, ud_paymentId = None,
                    ud_trackingNumber = given (s_trackingNumber req),
                    ud_shippingCarrier = given (s_shippingCarrier req),
                    ud_notes = given (s_notes req),
                    ud_deliveredAt =
                      (if s_orderStatus req = ''delivered'' then Some now else None),
                    ud_cancelledAt =
                      (if s_orderStatus req = ''cancelled'' then Some now else None),
                    ud_cancellationReason =
                      (if s_orderStatus req = ''cancelled'' then given (s_notes req) else None)\<rparr>
          in case Order_findByIdAndUpdate st (s_id req) ud of
               Inl e \<Rightarrow> (st, Inl e)
             | Inr (st', None) \<Rightarrow> (st', Inl InternalError)
             | Inr (st', Some updatedOrder) \<Rightarrow>
                 (st'\<lparr>events := events st' @
                        handleOrderStatusChange updatedOrder oldStatus (s_orderStatus req)\<rparr>,
                  Inr updatedOrder))"

record paymentReq =
  y_id :: objectId
  y_paymentStatus :: string
  y_paymentId :: "string option"

text \<open>\<^verbatim>\<open>updatePaymentStatus\<close>.\<close>

definition updatePaymentStatus :: "store \<Rightarrow> paymentReq \<Rightarrow> store \<times> (failure + order)" where
  "updatePaymentStatus st req =
     (case Order_findById st (y_id req) of
        None \<Rightarrow> (st, Inl OrderNotFound)
      | Some ord \<Rightarrow>
          let oldPaymentStatus = paymentStatus ord;
              ud = \<lparr>ud_orderStatus = None,
                    ud_paymentStatus = Some (y_paymentStatus req),
                    ud_paymentId = y_paymentId req,
                    ud_trackingNumber = None, ud_shippingCarrier = None, ud_notes = None,
                    ud_deliveredAt = None, ud_cancelledAt = None,
                    ud_cancellationReason = None\<rparr>
          in case Order_findByIdAndUpdate st (y_id req) ud of
               Inl e \<Rightarrow> (st, Inl e)
             | Inr (st', None) \<Rightarrow> (st', Inl InternalError)
             | Inr (st', Some updatedOrder) \<Rightarrow>
                 (st'\<lparr>events := events st' @
                        handlePaymentStatusChange updatedOrder oldPaymentStatus
                          (y_paymentStatus req)\<rparr>,
                  Inr updatedOrder))"

section \<open>Two invocations of createOrder\<close>

text \<open>
  Node runs the code between two \<^verbatim>\<open>await\<close>s without interruption, and another request
  may run while one is suspended. One schedule of two \<^verbatim>\<open>createOrder\<close> calls: call A runs
  until its \<^verbatim>\<open>Order.create\<close> has returned, call B does the same, then A runs to its end,
  then B. The answers are those of A and of B.
\<close>

definition createOrder_interleaved ::
    "int \<Rightarrow> store \<Rightarrow> createOrderReq \<Rightarrow> createOrderReq
       \<Rightarrow> store \<times> (failure + order) \<times> (failure + order)" where
  "createOrder_interleaved now st reqA reqB =
     (case createOrder_admit now st reqA of
        (s1, admA) \<Rightarrow>
          (case createOrder_admit now s1 reqB of
             (s2, admB) \<Rightarrow>
               (case (case admA of Inl e \<Rightarrow> (s2, Inl e)
                                 | Inr ordA \<Rightarrow> createOrder_finish s2 reqA ordA) of
                  (s3, resA) \<Rightarrow>
                    (case (case admB of Inl e \<Rightarrow> (s3, Inl e)
                                      | Inr ordB \<Rightarrow> createOrder_finish s3 reqB ordB) of
                       (s4, resB) \<Rightarrow> (s4, resA, resB)))))"

section \<open>The specification's tables\<close>

text \<open>
  The edges the specification allows, in its own words: order status
  \<open>pending \<rightarrow> confirmed \<rightarrow> processing \<rightarrow> shipped \<rightarrow> delivered\<close>, any of
  \<open>pending\<close>, \<open>confirmed\<close>, \<open>processing\<close> to \<open>cancelled\<close>, and \<open>delivered \<rightarrow> returned\<close>;
  payment status \<open>pending \<rightarrow> paid\<close>, \<open>pending \<rightarrow> failed\<close>, \<open>paid \<rightarrow> refunded\<close>,
  \<open>paid \<rightarrow> partially_refunded\<close>. The source has no such table.
\<close>

definition spec_orderEdges :: "(string \<times> string) list" where
  "spec_orderEdges =
     [(''pending'', ''confirmed''), (''confirmed'', ''processing''),
      (''processing'', ''shipped''), (''shipped'', ''delivered''),
      (''pending'', ''cancelled''), (''confirmed'', ''cancelled''),
      (''processing'', ''cancelled''), (''delivered'', ''returned'')]"

definition spec_paymentEdges :: "(string \<times> string) list" where
  "spec_paymentEdges =
     [(''pending'', ''paid''), (''pending'', ''failed''), (''paid'', ''refunded''),
      (''paid'', ''partially_refunded'')]"

text \<open>
  The discount in the specification's words: the percentage of the order amount or the
  flat value, capped at \<open>maximumDiscountAmount\<close> if present, then capped at the order
  amount.
\<close>

definition spec_discount :: "coupon \<Rightarrow> rat \<Rightarrow> rat" where
  "spec_discount c orderAmount =
     (let d0 = (if discountType c = ''percentage'' then orderAmount * discountValue c / 100
                else discountValue c);
          d1 = (case maximumDiscountAmount c of None \<Rightarrow> d0 | Some m \<Rightarrow> min d0 m)
      in min d1 orderAmount)"

definition isLowStockAlert :: "event \<Rightarrow> bool" where
  "isLowStockAlert e = (case e of LowStockAlert a b c d \<Rightarrow> True | _ \<Rightarrow> False)"

section \<open>Example data\<close>

definition addr0 :: address where
  "addr0 = \<lparr>firstName = ''Ada'', lastName = ''Byron'', address1 = ''1 Main St'',
            city = ''Pune'', state = ''MH'', zipCode = ''411001'', country = ''IN''\<rparr>"

definition widget :: product where
  "widget = \<lparr>p_id = 1, p_name = ''Widget'', price = 40, sku = ''W-1'', stock = 1,
             lowStockThreshold = 10, trackQuantity = True, allowBackorder = False,
             p_isActive = True, totalSales = 0, images = []\<rparr>"

definition lamp :: product where
  "lamp = \<lparr>p_id = 2, p_name = ''Lamp'', price = 60, sku = ''L-2'', stock = 12,
           lowStockThreshold = 10, trackQuantity = True, allowBackorder = False,
           p_isActive = True, totalSales = 0, images = []\<rparr>"

definition ebook :: product where
  "ebook = \<lparr>p_id = 3, p_name = ''E-book'', price = 15, sku = ''E-3'', stock = 5,
            lowStockThreshold = 10, trackQuantity = False, allowBackorder = False,
            p_isActive = True, totalSales = 0, images = []\<rparr>"

definition SAVE10 :: coupon where
  "SAVE10 = \<lparr>code = ''SAVE10'', discountType = ''percentage'', discountValue = 10,
             minimumOrderAmount = 50, maximumDiscountAmount = Some 20, usageLimit = None,
             usageLimitPerUser = None, usedCount = 0, isActive = True, startDate = 0,
             endDate = 100, applicableProducts = [], applicableCategories = [],
             applicableUsers = [], usageHistory = []\<rparr>"

definition shop :: store where
  "shop = \<lparr>products = [widget, lamp, ebook], coupons = [SAVE10], orders = [], events = []\<rparr>"

definition buy :: "objectId \<Rightarrow> objectId \<Rightarrow> int \<Rightarrow> string option \<Rightarrow> createOrderReq" where
  "buy u pid q cc =
     \<lparr>r_user = u, r_items = [\<lparr>i_product = pid, i_quantity = q, i_variant = None\<rparr>],
      r_shippingAddress = Some addr0, r_billingAddress = Some addr0,
      r_paymentMethod = ''paypal'', r_couponCode = cc, r_notes = None\<rparr>"



text \<open>The line item the loop of \<^verbatim>\<open>createOrder\<close> captures for a product and a quantity.\<close>

definition snap :: "product \<Rightarrow> int \<Rightarrow> orderItem" where
  "snap p q = \<lparr>oi_product = p_id p, oi_name = p_name p, oi_image = [], oi_price = price p,
               oi_quantity = q, oi_variant = None, oi_sku = sku p\<rparr>"

text \<open>
  An order document as it lies in the collection: it has its number, both statuses are
  \<open>pending\<close>, the status history is empty, and there is neither tax, shipping nor discount.
\<close>

definition stored :: "objectId \<Rightarrow> objectId \<Rightarrow> orderItem list \<Rightarrow> order" where
  "stored i u its =
     \<lparr>o_id = i, orderNumber = Some ''ORD-5-0001'', user = u, items = its,
      shippingAddress = Some addr0, billingAddress = Some addr0,
      paymentMethod = ''paypal'', paymentStatus = ''pending'', paymentId = None,
      orderStatus = ''pending'',
      subtotal = (\<Sum>i\<leftarrow>its. oi_price i * of_int (oi_quantity i)), taxAmount = 0,
      shippingAmount = 0, discountAmount = 0,
      totalAmount = (\<Sum>i\<leftarrow>its. oi_price i * of_int (oi_quantity i)),
      o_coupon = None, o_notes = None, trackingNumber = None, shippingCarrier = None,
      deliveredAt = None, cancelledAt = None, cancellationReason = None,
      statusHistory = []\<rparr>"

definition shop1 :: store where
  "shop1 = shop\<lparr>orders := [stored 0 7 [snap lamp 5]]\<rparr>"

definition setStatus :: "string \<Rightarrow> statusReq" where
  "setStatus s = \<lparr>s_id = 0, s_orderStatus = s, s_trackingNumber = None,
                  s_shippingCarrier = None, s_notes = None\<rparr>"

definition setPayment :: "string \<Rightarrow> paymentReq" where
  "setPayment s = \<lparr>y_id = 0, y_paymentStatus = s, y_paymentId = None\<rparr>"

section \<open>Stock changes read off the stores\<close>

text \<open>
  The alert the specification asks for when a step of the stock loop has run: the stores
  before and after the step are compared, and the product of the line item contributes
  one alert exactly when its stock was strictly above its threshold before and is at or
  below it after.
\<close>

definition crossedAlert :: "store \<Rightarrow> store \<Rightarrow> objectId \<Rightarrow> event list" where
  "crossedAlert st st' pid =
     (case Product_findById st pid of
        None \<Rightarrow> []
      | Some p \<Rightarrow>
          (case Product_findById st' pid of
             None \<Rightarrow> []
           | Some p' \<Rightarrow>
               if stock p > lowStockThreshold p \<and> stock p' \<le> lowStockThreshold p
               then [LowStockAlert pid (p_name p) (stock p') (lowStockThreshold p)]
               else []))"

text \<open>
  The alerts due along the line items of an order: the stores are those the loop of
  \<^verbatim>\<open>handleNewOrder\<close> passes through, and the walk ends where the loop is thrown out.
\<close>

fun alertsAlong :: "store \<Rightarrow> orderItem list \<Rightarrow> event list" where
  "alertsAlong st [] = []"
| "alertsAlong st (item # rest) =
     (case updateStockItem st item of
        (st', Inl e) \<Rightarrow> []
      | (st', Inr u) \<Rightarrow> crossedAlert st st' (oi_product item) @ alertsAlong st' rest)"


section \<open>Lists searched by key\<close>

lemma find_replace:
  "find (\<lambda>x. f x = i) xs = Some a \<Longrightarrow> f b = i \<Longrightarrow>
     find (\<lambda>x. f x = i) (map (\<lambda>x. if f x = i then b else x) xs) = Some b"
  by (induction xs) (auto split: if_splits)

lemma find_replace_other:
  "f b = i \<Longrightarrow> i \<noteq> j \<Longrightarrow>
     find (\<lambda>x. f x = j) (map (\<lambda>x. if f x = i then b else x) xs) = find (\<lambda>x. f x = j) xs"
  by (induction xs) auto

lemma find_key: "find (\<lambda>x. f x = i) xs = Some a \<Longrightarrow> f a = i"
  by (induction xs) (auto split: if_splits)

section \<open>createOrder stores nothing\<close>


lemma Coupon_validate_null_order:
  "\<not> Coupon_validate (c\<lparr>usedCount := n,
        usageHistory := h @ [\<lparr>u_user = u, u_order = None, u_discountAmount = d\<rparr>]\<rparr>)"
  by (simp add: Coupon_validate_def)

lemma applyCoupon_cases:
  "applyCoupon now st req sub ois = Inr (d, cdata, cdoc) \<Longrightarrow>
     (cdata = None \<and> cdoc = None) \<or>
     (\<exists>c. cdata \<noteq> None \<and>
          cdoc = Some (c\<lparr>usedCount := usedCount c + 1,
                   usageHistory := usageHistory c @
                     [\<lparr>u_user = r_user req, u_order = None, u_discountAmount = d\<rparr>]\<rparr>))"
  by (auto simp: applyCoupon_def Let_def split: if_splits option.splits)


lemma createOrder_doc_Inr:
  assumes "createOrder_doc now st req = (st1, Inr doc)"
  shows "st1 = st \<and> orderNumber doc = None \<and> o_coupon doc = None \<and>
         (\<exists>sub ois. validateItems st (r_items req) 0 [] = Inr (sub, ois) \<and>
            items doc = ois \<and> subtotal doc = sub \<and>
            totalAmount doc
              = subtotal doc + taxAmount doc + shippingAmount doc - discountAmount doc)"
proof -
  from assms obtain sub ois where v: "validateItems st (r_items req) 0 [] = Inr (sub, ois)"
    by (auto simp: createOrder_doc_def split: sum.splits)
  from assms v obtain disc cdata cdoc where
    a: "applyCoupon now st req sub ois = Inr (disc, cdata, cdoc)"
    by (auto simp: createOrder_doc_def split: sum.splits)
  from assms v a obtain st0 where
    s: "(case cdoc of None \<Rightarrow> Inr st | Some c' \<Rightarrow> Coupon_save st c') = Inr st0"
    by (auto simp: createOrder_doc_def split: sum.splits)
  have n: "cdata = None \<and> cdoc = None"
  proof (rule ccontr)
    assume "\<not> (cdata = None \<and> cdoc = None)"
    with applyCoupon_cases [OF a] obtain c where
      "cdoc = Some (c\<lparr>usedCount := usedCount c + 1,
                   usageHistory := usageHistory c @
                     [\<lparr>u_user = r_user req, u_order = None, u_discountAmount = disc\<rparr>]\<rparr>)"
      by blast
    with s show False
      by (simp add: Coupon_save_def Coupon_validate_null_order)
  qed
  with s have "st0 = st" by simp
  with assms v a s n show ?thesis
    by (auto simp: createOrder_doc_def Let_def)
qed








section \<open>Orders with a coupon\<close>


text \<open>
  C6. When the items pass the loop, a coupon code is given, the coupon exists and
  \<^verbatim>\<open>canUserUse\<close> holds, the usage entry is pushed with \<^verbatim>\<open>order: null\<close> against the schema's
  \<^verbatim>\<open>required: true\<close>, \<^verbatim>\<open>coupon.save()\<close> is rejected, \<^verbatim>\<open>createOrder\<close> answers with the internal
  error and the store is unchanged: no order is created. Hence an order that
  \<^verbatim>\<open>createOrder\<close> returns never carries a coupon.
\<close>

theorem createOrder_coupon_save_rejected:
  "(validateItems st (r_items req) 0 [] = Inr (sub, ois) \<and>
    r_couponCode req = Some cc \<and> cc \<noteq> [] \<and>
    Coupon_findOne st (toUpperCase cc) = Some c \<and> canUserUse now c (r_user req)
      \<longrightarrow> createOrder now st req = (st, Inl InternalError)) \<and>
   (createOrder now st req = (st', Inr ord) \<longrightarrow> o_coupon ord = None)"
proof (intro conjI impI)
  assume h: "validateItems st (r_items req) 0 [] = Inr (sub, ois) \<and>
    r_couponCode req = Some cc \<and> cc \<noteq> [] \<and>
    Coupon_findOne st (toUpperCase cc) = Some c \<and> canUserUse now c (r_user req)"
  let ?d = "calculateDiscount now c sub ois"
  let ?c' = "c\<lparr>usedCount := usedCount c + 1,
               usageHistory := usageHistory c @
                 [\<lparr>u_user = r_user req, u_order = None, u_discountAmount = ?d\<rparr>]\<rparr>"
  from h have a: "applyCoupon now st req sub ois
      = Inr (?d, Some \<lparr>cd_code = code c, cd_discountType = discountType c,
                       cd_discountValue = discountValue c\<rparr>, Some ?c')"
    by (simp add: applyCoupon_def truthy_def Let_def)
  have s: "Coupon_save st ?c' = Inl InternalError"
    by (simp add: Coupon_save_def Coupon_validate_null_order)
  from h a s have "createOrder_doc now st req = (st, Inl InternalError)"
    by (simp add: createOrder_doc_def)
  then have "createOrder_admit now st req = (st, Inl InternalError)"
    by (simp add: createOrder_admit_def)
  then show "createOrder now st req = (st, Inl InternalError)"
    by (simp add: createOrder_def)
next
  assume r: "createOrder now st req = (st', Inr ord)"
  obtain st1 a where adm: "createOrder_admit now st req = (st1, a)"
    by (cases "createOrder_admit now st req")
  show "o_coupon ord = None"
  proof (cases a)
    case (Inl e)
    with adm r show ?thesis by (simp add: createOrder_def)
  next
    case (Inr ord1)
    with adm r have "createOrder_finish st1 req ord1 = (st', Inr ord)"
      by (simp add: createOrder_def)
    then have e: "ord = ord1"
      by (auto simp: createOrder_finish_def Let_def split: prod.splits sum.splits)
    obtain st0 x where d: "createOrder_doc now st req = (st0, x)"
      by (cases "createOrder_doc now st req")
    from adm Inr d obtain doc where x: "x = Inr doc"
      and c: "Order_create now st0 doc = Inr (st1, ord1)"
      by (cases x) (auto simp: createOrder_admit_def split: sum.splits)
    from createOrder_doc_Inr [of now st req st0 doc] d x have "o_coupon doc = None"
      by simp
    moreover from c have "o_coupon ord1 = o_coupon doc"
      by (auto simp: Order_create_def Let_def statusHistory_hook_def orderNumber_hook_def
            split: if_splits)
    ultimately show ?thesis using e by simp
  qed
qed

theorem createOrder_coupon_save_rejected_witness:
  "validateItems shop (r_items (buy 7 2 5 (Some ''save10''))) 0 []
     = Inr (300, [\<lparr>oi_product = 2, oi_name = ''Lamp'', oi_image = [], oi_price = 60,
                    oi_quantity = 5, oi_variant = None, oi_sku = ''L-2''\<rparr>]) \<and>
   r_couponCode (buy 7 2 5 (Some ''save10'')) = Some ''save10'' \<and>
   Coupon_findOne shop (toUpperCase ''save10'') = Some SAVE10 \<and>
   canUserUse 5 SAVE10 (r_user (buy 7 2 5 (Some ''save10''))) \<and>
   createOrder 5 shop (buy 7 2 5 (Some ''save10'')) = (shop, Inl InternalError)"
proof -
  let ?req = "buy 7 2 5 (Some ''save10'')"
  let ?ois = "[\<lparr>oi_product = 2, oi_name = ''Lamp'', oi_image = [], oi_price = 60,
                    oi_quantity = 5, oi_variant = None, oi_sku = ''L-2''\<rparr>]"
  have 1: "validateItems shop (r_items ?req) 0 [] = Inr (300, ?ois)" by code_simp
  have 2: "r_couponCode ?req = Some ''save10''" by (simp add: buy_def)
  have 3: "Coupon_findOne shop (toUpperCase ''save10'') = Some SAVE10" by code_simp
  have 4: "canUserUse 5 SAVE10 (r_user ?req)" by code_simp
  have 5: "createOrder 5 shop ?req = (shop, Inl InternalError)"
    using createOrder_coupon_save_rejected [of shop ?req 300 ?ois "''save10''" SAVE10 5]
      1 2 3 4 by simp
  from 1 2 3 4 5 show ?thesis by blast
qed

text \<open>
  C4. An order for one widget (amount 40) with SAVE10, whose minimum order amount is 50.
  \<^verbatim>\<open>calculateDiscount\<close> returns 0 and \<^verbatim>\<open>createOrder\<close> goes on as for any accepted coupon:
  discount 0, usage entry pushed. Its answer is the internal error of the rejected
  \<^verbatim>\<open>coupon.save()\<close>, not the invalid-coupon answer. \<^verbatim>\<open>validateCoupon\<close>, on the same coupon
  and amount, answers that the minimum order amount of 50 is required.
\<close>

theorem createOrder_below_minimum_not_rejected:
  "validateItems shop (r_items (buy 7 1 1 (Some ''save10''))) 0 []
     = Inr (40, [\<lparr>oi_product = 1, oi_name = ''Widget'', oi_image = [], oi_price = 40,
                   oi_quantity = 1, oi_variant = None, oi_sku = ''W-1''\<rparr>]) \<and>
   minimumOrderAmount SAVE10 = 50 \<and>
   calculateDiscount 5 SAVE10 40 [] = 0 \<and>
   applyCoupon 5 shop (buy 7 1 1 (Some ''save10'')) 40 []
     = Inr (0, Some \<lparr>cd_code = ''SAVE10'', cd_discountType = ''percentage'',
                      cd_discountValue = 10\<rparr>,
            Some (SAVE10\<lparr>usedCount := 1,
                         usageHistory := [\<lparr>u_user = 7, u_order = None,
                                           u_discountAmount = 0\<rparr>]\<rparr>)) \<and>
   snd (createOrder 5 shop (buy 7 1 1 (Some ''save10''))) = Inl InternalError \<and>
   snd (createOrder 5 shop (buy 7 1 1 (Some ''save10''))) \<noteq> Inl InvalidCoupon \<and>
   validateCoupon 5 shop 7 ''save10'' 40 [] = MinimumOrderRequired 50"
  by code_simp

section \<open>The discount\<close>

text \<open>
  A coupon whose \<^verbatim>\<open>maximumDiscountAmount\<close> is present and 0 (the schema's \<^verbatim>\<open>min\<close> is 0):
  the specification's formula caps the discount at 0, the source tests the field by
  truthiness and applies no cap.
\<close>

theorem calculateDiscount_zero_cap_counterexample:
  "isValid 5 (SAVE10\<lparr>maximumDiscountAmount := Some 0\<rparr>) \<and>
   canUserUse 5 (SAVE10\<lparr>maximumDiscountAmount := Some 0\<rparr>) 7 \<and>
   applicableProducts (SAVE10\<lparr>maximumDiscountAmount := Some 0\<rparr>) = [] \<and>
   applicableCategories (SAVE10\<lparr>maximumDiscountAmount := Some 0\<rparr>) = [] \<and>
   minimumOrderAmount (SAVE10\<lparr>maximumDiscountAmount := Some 0\<rparr>) \<le> 300 \<and>
   spec_discount (SAVE10\<lparr>maximumDiscountAmount := Some 0\<rparr>) 300 = 0 \<and>
   calculateDiscount 5 (SAVE10\<lparr>maximumDiscountAmount := Some 0\<rparr>) 300 [] = 30"
  by (simp add: SAVE10_def isValid_def canUserUse_def spec_discount_def calculateDiscount_def)

text \<open>
  C5, amended. For a valid coupon without product or category restriction and an order
  amount of at least \<^verbatim>\<open>minimumOrderAmount\<close>, the discount is the percentage of the order
  amount or the flat value, capped at \<^verbatim>\<open>maximumDiscountAmount\<close> when that is present and not
  0, then capped at the order amount; it never exceeds the order amount.
\<close>

theorem calculateDiscount_formula:
  assumes "isValid now c"
    and "applicableProducts c = []" and "applicableCategories c = []"
    and "minimumOrderAmount c \<le> orderAmount"
  shows "calculateDiscount now c orderAmount its
           = min (case maximumDiscountAmount c of
                    None \<Rightarrow> (if discountType c = ''percentage''
                              then orderAmount * discountValue c / 100 else discountValue c)
                  | Some m \<Rightarrow>
                      if m = 0
                      then (if discountType c = ''percentage''
                            then orderAmount * discountValue c / 100 else discountValue c)
                      else min (if discountType c = ''percentage''
                                then orderAmount * discountValue c / 100 else discountValue c) m)
                 orderAmount
         \<and> calculateDiscount now c orderAmount its \<le> orderAmount"
  using assms
  by (simp add: calculateDiscount_def Let_def min_def split: option.splits)

theorem calculateDiscount_formula_witness:
  "isValid 5 SAVE10 \<and> applicableProducts SAVE10 = [] \<and> applicableCategories SAVE10 = [] \<and>
   minimumOrderAmount SAVE10 \<le> 300 \<and>
   calculateDiscount 5 SAVE10 300 [] = 20 \<and> 300 - calculateDiscount 5 SAVE10 300 [] = 280"
proof -
  have h: "isValid 5 SAVE10" "applicableProducts SAVE10 = []" "applicableCategories SAVE10 = []"
    "minimumOrderAmount SAVE10 \<le> 300"
    by (simp_all add: SAVE10_def isValid_def)
  from calculateDiscount_formula [OF h, of "[]"] have "calculateDiscount 5 SAVE10 300 [] = 20"
    by (simp add: SAVE10_def)
  with h show ?thesis by simp
qed

section \<open>Status changes\<close>

text \<open>
  An order in status \<open>pending\<close> with payment \<open>pending\<close>: the request for order status
  \<open>delivered\<close> and the request for payment status \<open>refunded\<close> are both outside the
  specification's edges, and both are carried out.
\<close>

theorem updateStatus_skips_edges_counterexample:
  "(''pending'', ''delivered'') \<notin> set spec_orderEdges \<and>
   (''pending'', ''refunded'') \<notin> set spec_paymentEdges \<and>
   map orderStatus (orders shop1) = [''pending''] \<and>
   map paymentStatus (orders shop1) = [''pending''] \<and>
   map orderStatus (orders (fst (updateOrderStatus 6 shop1 (setStatus ''delivered''))))
     = [''delivered''] \<and>
   map paymentStatus (orders (fst (updatePaymentStatus shop1 (setPayment ''refunded''))))
     = [''refunded'']"
  by code_simp

lemma Order_findByIdAndUpdate_ok:
  assumes "Order_findById st i = Some ord" and "update_validate ud"
  shows "Order_findByIdAndUpdate st i ud
           = Inr (st\<lparr>orders := map (\<lambda>x. if o_id x = i then apply_update ud ord else x) (orders st)\<rparr>,
                  Some (apply_update ud ord))"
  using assms by (simp add: Order_findByIdAndUpdate_def Let_def)

lemma Order_findById_updated:
  assumes "Order_findById st i = Some ord" and "o_id ord' = i"
  shows "Order_findById (st\<lparr>orders := map (\<lambda>x. if o_id x = i then ord' else x) (orders st),
                            events := ev\<rparr>) i = Some ord'"
  using assms find_replace [of o_id i "orders st" ord ord']
  by (simp add: Order_findById_def)

text \<open>
  C2, amended. For an existing order, a requested order status (payment status) is
  accepted exactly when it is one of the values of the schema's \<^verbatim>\<open>enum\<close>, whatever the
  current status: the stored order then has the requested status and its other status
  field is unchanged. A value outside the \<^verbatim>\<open>enum\<close> is answered with the internal error
  and the store is unchanged.
\<close>

theorem updateStatus_enum_only:
  assumes "Order_findById st (s_id req) = Some ord"
    and "Order_findById st (y_id preq) = Some pord"
  shows "(if s_orderStatus req \<in> set orderStatus_enum
          then \<exists>st' ord'. updateOrderStatus now st req = (st', Inr ord') \<and>
                 orderStatus ord' = s_orderStatus req \<and>
                 paymentStatus ord' = paymentStatus ord \<and>
                 Order_findById st' (s_id req) = Some ord'
          else updateOrderStatus now st req = (st, Inl InternalError)) \<and>
         (if y_paymentStatus preq \<in> set paymentStatus_enum
          then \<exists>st' ord'. updatePaymentStatus st preq = (st', Inr ord') \<and>
                 paymentStatus ord' = y_paymentStatus preq \<and>
                 orderStatus ord' = orderStatus pord \<and>
                 Order_findById st' (y_id preq) = Some ord'
          else updatePaymentStatus st preq = (st, Inl InternalError))"
proof (intro conjI)
  let ?ud = "\<lparr>ud_orderStatus = Some (s_orderStatus req),
                    ud_paymentStatus = None, ud_paymentId = None,
                    ud_trackingNumber = given (s_trackingNumber req),
                    ud_shippingCarrier = given (s_shippingCarrier req),
                    ud_notes = given (s_notes req),
                    ud_deliveredAt =
                      (if s_orderStatus req = ''delivered'' then Some now else None),
                    ud_cancelledAt =
                      (if s_orderStatus req = ''cancelled'' then Some now else None),
                    ud_cancellationReason =
                      (if s_orderStatus req = ''cancelled'' then given (s_notes req) else None)\<rparr>"
  have id: "o_id ord = s_id req"
    using assms(1) find_key [of o_id "s_id req" "orders st" ord] by (simp add: Order_findById_def)
  have v: "update_validate ?ud \<longleftrightarrow> s_orderStatus req \<in> set orderStatus_enum"
    by (simp add: update_validate_def)
  show "if s_orderStatus req \<in> set orderStatus_enum
          then \<exists>st' ord'. updateOrderStatus now st req = (st', Inr ord') \<and>
                 orderStatus ord' = s_orderStatus req \<and>
                 paymentStatus ord' = paymentStatus ord \<and>
                 Order_findById st' (s_id req) = Some ord'
          else updateOrderStatus now st req = (st, Inl InternalError)"
  proof (cases "s_orderStatus req \<in> set orderStatus_enum")
    case True
    with v have ok: "update_validate ?ud" by simp
    have a: "o_id (apply_update ?ud ord) = s_id req"
      using id by (simp add: apply_update_def)
    have "updateOrderStatus now st req =
            (st\<lparr>orders := map (\<lambda>x. if o_id x = s_id req then apply_update ?ud ord else x) (orders st),
                events := events st @ handleOrderStatusChange (apply_update ?ud ord)
                                        (orderStatus ord) (s_orderStatus req)\<rparr>,
             Inr (apply_update ?ud ord))"
      using assms(1) Order_findByIdAndUpdate_ok [OF assms(1) ok]
      by (simp add: updateOrderStatus_def Let_def)
    moreover have "orderStatus (apply_update ?ud ord) = s_orderStatus req"
      "paymentStatus (apply_update ?ud ord) = paymentStatus ord"
      by (simp_all add: apply_update_def set_path_def)
    moreover note Order_findById_updated [OF assms(1) a]
    ultimately show ?thesis using True by simp
  next
    case False
    with v have "\<not> update_validate ?ud" by simp
    then have "Order_findByIdAndUpdate st (s_id req) ?ud = Inl InternalError"
      by (simp add: Order_findByIdAndUpdate_def)
    with assms(1) False show ?thesis
      by (simp add: updateOrderStatus_def Let_def)
  qed
next
  let ?ud = "\<lparr>ud_orderStatus = None,
                    ud_paymentStatus = Some (y_paymentStatus preq),
                    ud_paymentId = y_paymentId preq,
                    ud_trackingNumber = None, ud_shippingCarrier = None, ud_notes = None,
                    ud_deliveredAt = None, ud_cancelledAt = None,
                    ud_cancellationReason = None\<rparr>"
  have id: "o_id pord = y_id preq"
    using assms(2) find_key [of o_id "y_id preq" "orders st" pord] by (simp add: Order_findById_def)
  have v: "update_validate ?ud \<longleftrightarrow> y_paymentStatus preq \<in> set paymentStatus_enum"
    by (simp add: update_validate_def)
  show "if y_paymentStatus preq \<in> set paymentStatus_enum
          then \<exists>st' ord'. updatePaymentStatus st preq = (st', Inr ord') \<and>
                 paymentStatus ord' = y_paymentStatus preq \<and>
                 orderStatus ord' = orderStatus pord \<and>
                 Order_findById st' (y_id preq) = Some ord'
          else updatePaymentStatus st preq = (st, Inl InternalError)"
  proof (cases "y_paymentStatus preq \<in> set paymentStatus_enum")
    case True
    with v have ok: "update_validate ?ud" by simp
    have a: "o_id (apply_update ?ud pord) = y_id preq"
      using id by (simp add: apply_update_def)
    have "updatePaymentStatus st preq =
            (st\<lparr>orders := map (\<lambda>x. if o_id x = y_id preq then apply_update ?ud pord else x) (orders st),
                events := events st @ handlePaymentStatusChange (apply_update ?ud pord)
                                        (paymentStatus pord) (y_paymentStatus preq)\<rparr>,
             Inr (apply_update ?ud pord))"
      using assms(2) Order_findByIdAndUpdate_ok [OF assms(2) ok]
      by (simp add: updatePaymentStatus_def Let_def)
    moreover have "paymentStatus (apply_update ?ud pord) = y_paymentStatus preq"
      "orderStatus (apply_update ?ud pord) = orderStatus pord"
      by (simp_all add: apply_update_def set_path_def)
    moreover note Order_findById_updated [OF assms(2) a]
    ultimately show ?thesis using True by simp
  next
    case False
    with v have "\<not> update_validate ?ud" by simp
    then have "Order_findByIdAndUpdate st (y_id preq) ?ud = Inl InternalError"
      by (simp add: Order_findByIdAndUpdate_def)
    with assms(2) False show ?thesis
      by (simp add: updatePaymentStatus_def Let_def)
  qed
qed


theorem updateStatus_enum_only_witness:
  "(\<exists>ord. Order_findById shop1 (s_id (setStatus ''delivered'')) = Some ord \<and>
          Order_findById shop1 (y_id (setPayment ''refunded'')) = Some ord \<and>
          orderStatus ord = ''pending'' \<and> paymentStatus ord = ''pending'') \<and>
   (\<exists>st' ord'. updateOrderStatus 6 shop1 (setStatus ''delivered'') = (st', Inr ord') \<and>
          orderStatus ord' = ''delivered'' \<and> Order_findById st' 0 = Some ord') \<and>
   (\<exists>st' ord'. updatePaymentStatus shop1 (setPayment ''refunded'') = (st', Inr ord') \<and>
          paymentStatus ord' = ''refunded'' \<and> Order_findById st' 0 = Some ord') \<and>
   updateOrderStatus 6 shop1 (setStatus ''bogus'') = (shop1, Inl InternalError) \<and>
   updatePaymentStatus shop1 (setPayment ''bogus'') = (shop1, Inl InternalError)"
proof -
  have "case Order_findById shop1 0 of
          Some ord \<Rightarrow> orderStatus ord = ''pending'' \<and> paymentStatus ord = ''pending''
        | None \<Rightarrow> False"
    by code_simp
  then obtain ord where f: "Order_findById shop1 0 = Some ord"
    and p: "orderStatus ord = ''pending''" "paymentStatus ord = ''pending''"
    by (auto split: option.splits)
  have f1: "\<And>s. Order_findById shop1 (s_id (setStatus s)) = Some ord"
    and f2: "\<And>s. Order_findById shop1 (y_id (setPayment s)) = Some ord"
    using f by (simp_all add: setStatus_def setPayment_def)
  have m: "s_orderStatus (setStatus ''delivered'') \<in> set orderStatus_enum"
    "y_paymentStatus (setPayment ''refunded'') \<in> set paymentStatus_enum"
    "s_orderStatus (setStatus ''bogus'') \<notin> set orderStatus_enum"
    "y_paymentStatus (setPayment ''bogus'') \<notin> set paymentStatus_enum"
    by (simp_all add: setStatus_def setPayment_def orderStatus_enum_def paymentStatus_enum_def)
  have i: "s_id (setStatus ''delivered'') = 0" "y_id (setPayment ''refunded'') = 0"
    "s_orderStatus (setStatus ''delivered'') = ''delivered''"
    "y_paymentStatus (setPayment ''refunded'') = ''refunded''"
    by (simp_all add: setStatus_def setPayment_def)
  from updateStatus_enum_only [where st = shop1 and now = 6 and req = "setStatus ''delivered''"
         and preq = "setPayment ''refunded''", OF f1 f2] m(1,2)
  have a: "\<exists>st' ord'. updateOrderStatus 6 shop1 (setStatus ''delivered'') = (st', Inr ord') \<and>
          orderStatus ord' = ''delivered'' \<and> Order_findById st' 0 = Some ord'"
    and b: "\<exists>st' ord'. updatePaymentStatus shop1 (setPayment ''refunded'') = (st', Inr ord') \<and>
          paymentStatus ord' = ''refunded'' \<and> Order_findById st' 0 = Some ord'"
    by (auto simp add: i)
  from updateStatus_enum_only [where st = shop1 and now = 6 and req = "setStatus ''bogus''"
         and preq = "setPayment ''bogus''", OF f1 f2] m(3,4)
  have c: "updateOrderStatus 6 shop1 (setStatus ''bogus'') = (shop1, Inl InternalError)"
    and d: "updatePaymentStatus shop1 (setPayment ''bogus'') = (shop1, Inl InternalError)"
    by simp_all
  from f1 f2 p a b c d show ?thesis by blast
qed

text \<open>
  C7. An order in status \<open>pending\<close> with an empty status history; \<open>confirmed\<close> is an edge of
  the specification. \<^verbatim>\<open>updateOrderStatus\<close> sets the status to \<open>confirmed\<close> and the status
  history stays empty, in the answer and in the store. The \<^verbatim>\<open>pre("save")\<close> hook of
  \<^verbatim>\<open>models/Order.js\<close>, had it run on that order, would have appended one entry.
\<close>

theorem updateOrderStatus_history_not_appended:
  "(''pending'', ''confirmed'') \<in> set spec_orderEdges \<and>
   map orderStatus (orders shop1) = [''pending''] \<and>
   map statusHistory (orders shop1) = [[]] \<and>
   map orderStatus (orders (fst (updateOrderStatus 6 shop1 (setStatus ''confirmed''))))
     = [''confirmed''] \<and>
   map statusHistory (orders (fst (updateOrderStatus 6 shop1 (setStatus ''confirmed''))))
     = [[]] \<and>
   (case snd (updateOrderStatus 6 shop1 (setStatus ''confirmed'')) of
      Inr ord \<Rightarrow> orderStatus ord = ''confirmed'' \<and> statusHistory ord = [] \<and>
                 statusHistory (statusHistory_hook True False 6 ord)
                   = [\<lparr>se_status = ''confirmed'', se_timestamp = 6,
                       se_note = ''Order status changed to confirmed''\<rparr>]
    | Inl e \<Rightarrow> False)"
  by code_simp

section \<open>One step of the stock loop\<close>

text \<open>The four ways a step can go, with the store and the events each leaves.\<close>

lemma updateStockItem_cases:
  obtains
    (missing) "Product_findById st (oi_product item) = None"
      "updateStockItem st item = (st, Inr ())"
  | (untracked) p where "Product_findById st (oi_product item) = Some p" "\<not> trackQuantity p"
      "updateStockItem st item = (st, Inr ())"
  | (rejected) p where "Product_findById st (oi_product item) = Some p" "trackQuantity p"
      "stock p - oi_quantity item < 0" "updateStockItem st item = (st, Inl InternalError)"
  | (saved) p where "Product_findById st (oi_product item) = Some p" "trackQuantity p"
      "stock p - oi_quantity item \<ge> 0"
      "updateStockItem st item =
         (st\<lparr>products := map (\<lambda>q. if p_id q = oi_product item
                                     then p\<lparr>stock := stock p - oi_quantity item,
                                            totalSales := totalSales p + oi_quantity item\<rparr>
                                     else q) (products st),
             events := events st @
               handleStockChange (oi_product item) (stock p) (stock p - oi_quantity item)
                 (p\<lparr>stock := stock p - oi_quantity item,
                    totalSales := totalSales p + oi_quantity item\<rparr>)\<rparr>, Inr ())"
proof (cases "Product_findById st (oi_product item)")
  case None
  then have "updateStockItem st item = (st, Inr ())"
    by (simp add: updateStockItem_def)
  with None show ?thesis by (rule missing)
next
  case (Some p)
  have id: "p_id p = oi_product item"
    using Some find_key [of p_id "oi_product item" "products st" p]
    by (simp add: Product_findById_def)
  show ?thesis
  proof (cases "trackQuantity p")
    case False
    with Some have "updateStockItem st item = (st, Inr ())"
      by (simp add: updateStockItem_def)
    with Some False show ?thesis by (rule untracked)
  next
    case True
    show ?thesis
    proof (cases "stock p - oi_quantity item < 0")
      case neg: True
      with Some True have "updateStockItem st item = (st, Inl InternalError)"
        by (simp add: updateStockItem_def Product_save_def Product_validate_def Let_def)
      with Some True neg show ?thesis by (rule rejected)
    next
      case False
      then have ge: "stock p - oi_quantity item \<ge> 0" by simp
      with Some True id have "updateStockItem st item =
         (st\<lparr>products := map (\<lambda>q. if p_id q = oi_product item
                                     then p\<lparr>stock := stock p - oi_quantity item,
                                            totalSales := totalSales p + oi_quantity item\<rparr>
                                     else q) (products st),
             events := events st @
               handleStockChange (oi_product item) (stock p) (stock p - oi_quantity item)
                 (p\<lparr>stock := stock p - oi_quantity item,
                    totalSales := totalSales p + oi_quantity item\<rparr>)\<rparr>, Inr ())"
        by (simp add: updateStockItem_def Product_save_def Product_validate_def Let_def)
      with Some True ge show ?thesis by (rule saved)
    qed
  qed
qed

lemma Product_findById_saved:
  assumes "Product_findById st i = Some p" and "p_id p' = i"
  shows "Product_findById (st\<lparr>products := map (\<lambda>q. if p_id q = i then p' else q) (products st),
                               events := ev\<rparr>) i = Some p'"
  using assms find_replace [of p_id i "products st" p p']
  by (simp add: Product_findById_def)

lemma Product_findById_other:
  assumes "p_id p' = i" and "i \<noteq> j"
  shows "Product_findById (st\<lparr>products := map (\<lambda>q. if p_id q = i then p' else q) (products st),
                               events := ev\<rparr>) j = Product_findById st j"
  using assms find_replace_other [of p_id p' i j "products st"]
  by (simp add: Product_findById_def)

text \<open>What a step does to the product with a given id.\<close>

lemma updateStockItem_product:
  assumes "updateStockItem st item = (st', r)" and "Product_findById st pid = Some p"
  shows "Product_findById st' pid =
           Some (if oi_product item = pid \<and> trackQuantity p \<and> r = Inr ()
                 then p\<lparr>stock := stock p - oi_quantity item,
                        totalSales := totalSales p + oi_quantity item\<rparr>
                 else p)"
proof (cases rule: updateStockItem_cases [of st item])
  case missing
  with assms show ?thesis by auto
next
  case (untracked p0)
  with assms show ?thesis by auto
next
  case (rejected p0)
  with assms show ?thesis by auto
next
  case (saved p0)
  have id0: "p_id p0 = oi_product item"
    using saved(1) find_key [of p_id "oi_product item" "products st" p0]
    by (simp add: Product_findById_def)
  let ?p' = "p0\<lparr>stock := stock p0 - oi_quantity item,
                totalSales := totalSales p0 + oi_quantity item\<rparr>"
  have id': "p_id ?p' = oi_product item" using id0 by simp
  show ?thesis
  proof (cases "oi_product item = pid")
    case True
    with saved(1) assms(2) have "p0 = p" by simp
    with saved assms True Product_findById_saved [OF saved(1) id'] show ?thesis
      by auto
  next
    case False
    with saved assms Product_findById_other [OF id' False] show ?thesis
      by auto
  qed
qed

lemma updateStockItem_events:
  "\<exists>new. events (fst (updateStockItem st item)) = events st @ new \<and>
         filter isLowStockAlert new
           = crossedAlert st (fst (updateStockItem st item)) (oi_product item)"
proof (cases rule: updateStockItem_cases [of st item])
  case missing
  then show ?thesis by (simp add: crossedAlert_def)
next
  case (untracked p)
  then show ?thesis by (simp add: crossedAlert_def)
next
  case (rejected p)
  then show ?thesis by (simp add: crossedAlert_def)
next
  case (saved p)
  let ?p' = "p\<lparr>stock := stock p - oi_quantity item,
               totalSales := totalSales p + oi_quantity item\<rparr>"
  have "Product_findById (fst (updateStockItem st item)) (oi_product item) = Some ?p'"
    using updateStockItem_product [OF saved(4) saved(1)] saved(2) saved(4) by simp
  with saved(1) have
    "crossedAlert st (fst (updateStockItem st item)) (oi_product item)
       = (if stock p > lowStockThreshold p \<and> stock p - oi_quantity item \<le> lowStockThreshold p
          then [LowStockAlert (oi_product item) (p_name p) (stock p - oi_quantity item)
                  (lowStockThreshold p)] else [])"
    by (simp add: crossedAlert_def)
  moreover have
    "filter isLowStockAlert
       (handleStockChange (oi_product item) (stock p) (stock p - oi_quantity item) ?p')
       = (if stock p > lowStockThreshold p \<and> stock p - oi_quantity item \<le> lowStockThreshold p
          then [LowStockAlert (oi_product item) (p_name p) (stock p - oi_quantity item)
                  (lowStockThreshold p)] else [])"
    by (simp add: handleStockChange_def isLowStockAlert_def Let_def)
  ultimately show ?thesis using saved(4) by simp
qed

section \<open>The whole loop\<close>

lemma updateStock_events:
  "\<exists>new. events (fst (updateStock st its)) = events st @ new \<and>
         filter isLowStockAlert new = alertsAlong st its"
proof (induction its arbitrary: st)
  case Nil
  show ?case by simp
next
  case (Cons item rest)
  obtain st' r where step: "updateStockItem st item = (st', r)"
    by (cases "updateStockItem st item")
  from updateStockItem_events [of st item] step obtain new1 where
    n1: "events st' = events st @ new1"
        "filter isLowStockAlert new1 = crossedAlert st st' (oi_product item)"
    by auto
  show ?case
  proof (cases r)
    case (Inl e)
    have "st' = st"
      using step Inl by (cases rule: updateStockItem_cases [of st item]) auto
    with step Inl show ?thesis by simp
  next
    case (Inr u)
    from Cons.IH [of st'] obtain new2 where
      n2: "events (fst (updateStock st' rest)) = events st' @ new2"
          "filter isLowStockAlert new2 = alertsAlong st' rest"
      by blast
    from step Inr n1 n2 show ?thesis
      by (intro exI [of _ "new1 @ new2"]) simp
  qed
qed

lemma updateStockItem_products_only:
  assumes "products st1 = products st2"
  shows "products (fst (updateStockItem st1 item)) = products (fst (updateStockItem st2 item)) \<and>
         snd (updateStockItem st1 item) = snd (updateStockItem st2 item)"
  using assms
  by (simp add: updateStockItem_def Product_findById_def Product_save_def Let_def
        split: option.splits)

lemma crossedAlert_products_only:
  assumes "products st1 = products st2" and "products st1' = products st2'"
  shows "crossedAlert st1 st1' pid = crossedAlert st2 st2' pid"
proof -
  have "Product_findById st1 pid = Product_findById st2 pid"
    "Product_findById st1' pid = Product_findById st2' pid"
    using assms by (simp_all add: Product_findById_def)
  then show ?thesis unfolding crossedAlert_def by (simp split: option.splits)
qed

lemma alertsAlong_products_only:
  "products st1 = products st2 \<Longrightarrow> alertsAlong st1 its = alertsAlong st2 its"
proof (induction its arbitrary: st1 st2)
  case Nil
  show ?case by simp
next
  case (Cons item rest)
  obtain a1 r1 where s1: "updateStockItem st1 item = (a1, r1)"
    by (cases "updateStockItem st1 item")
  obtain a2 r2 where s2: "updateStockItem st2 item = (a2, r2)"
    by (cases "updateStockItem st2 item")
  from updateStockItem_products_only [OF Cons.prems, of item] s1 s2
  have e: "products a1 = products a2" "r1 = r2" by simp_all
  from Cons.IH [OF e(1)] crossedAlert_products_only [OF Cons.prems e(1)] s1 s2 e(2)
  show ?case by (cases r2) simp_all
qed

text \<open>
  C8. \<^verbatim>\<open>handleStockChange\<close> emits the low-stock alert if and only if the old stock is
  strictly above the threshold and the new stock is at or below it, and then exactly
  once. Every step of the loop of \<^verbatim>\<open>handleNewOrder\<close> adds to the event log exactly the
  alert due for the change it made to the store, and the whole of \<^verbatim>\<open>handleNewOrder\<close> adds
  exactly the alerts due along the line items of the order. An order with two lines for
  lamps, 5 and then 3, from a stock of 12 with threshold 10: the change 12 to 7 emits the
  alert, the change 7 to 4 does not.
\<close>

theorem handleNewOrder_alert_iff_crossed:
  "(list_ex isLowStockAlert (handleStockChange pid oldStock newStock p)
      \<longleftrightarrow> oldStock > lowStockThreshold p \<and> newStock \<le> lowStockThreshold p) \<and>
   filter isLowStockAlert (handleStockChange pid oldStock newStock p)
     = (if oldStock > lowStockThreshold p \<and> newStock \<le> lowStockThreshold p
        then [LowStockAlert pid (p_name p) newStock (lowStockThreshold p)] else []) \<and>
   (\<exists>new. events (fst (updateStockItem st item)) = events st @ new \<and>
      filter isLowStockAlert new
        = crossedAlert st (fst (updateStockItem st item)) (oi_product item)) \<and>
   (\<exists>new. events (fst (handleNewOrder st ord)) = events st @ new \<and>
      filter isLowStockAlert new = alertsAlong st (items ord)) \<and>
   (case handleNewOrder shop (stored 0 7 [snap lamp 5, snap lamp 3]) of
      (st', r) \<Rightarrow>
        r = Inr () \<and> map_option stock (Product_findById st' 2) = Some 4 \<and>
        filter isLowStockAlert (events st') = [LowStockAlert 2 ''Lamp'' 7 10]) \<and>
   map_option stock (Product_findById shop 2) = Some 12 \<and>
   alertsAlong shop [snap lamp 5, snap lamp 3] = [LowStockAlert 2 ''Lamp'' 7 10]"
proof -
  have pure: "(list_ex isLowStockAlert (handleStockChange pid oldStock newStock p)
      \<longleftrightarrow> oldStock > lowStockThreshold p \<and> newStock \<le> lowStockThreshold p) \<and>
   filter isLowStockAlert (handleStockChange pid oldStock newStock p)
     = (if oldStock > lowStockThreshold p \<and> newStock \<le> lowStockThreshold p
        then [LowStockAlert pid (p_name p) newStock (lowStockThreshold p)] else [])"
    by (simp add: handleStockChange_def isLowStockAlert_def Let_def)
  let ?st0 = "st\<lparr>events := events st @
              [AnalyticsNewOrder (o_id ord) (totalAmount ord) (length (items ord)) (user ord)
                 (orderStatus ord)]\<rparr>"
  from updateStock_events [of ?st0 "items ord"] obtain new where
    n: "events (fst (updateStock ?st0 (items ord))) = events ?st0 @ new"
       "filter isLowStockAlert new = alertsAlong ?st0 (items ord)"
    by blast
  have "alertsAlong ?st0 (items ord) = alertsAlong st (items ord)"
    by (rule alertsAlong_products_only) simp
  with n have loop: "\<exists>new. events (fst (handleNewOrder st ord)) = events st @ new \<and>
      filter isLowStockAlert new = alertsAlong st (items ord)"
    by (intro exI [of _ "AnalyticsNewOrder (o_id ord) (totalAmount ord) (length (items ord))
          (user ord) (orderStatus ord) # new"])
       (simp add: handleNewOrder_def isLowStockAlert_def)
  have run: "(case handleNewOrder shop (stored 0 7 [snap lamp 5, snap lamp 3]) of
      (st', r) \<Rightarrow>
        r = Inr () \<and> map_option stock (Product_findById st' 2) = Some 4 \<and>
        filter isLowStockAlert (events st') = [LowStockAlert 2 ''Lamp'' 7 10]) \<and>
   map_option stock (Product_findById shop 2) = Some 12 \<and>
   alertsAlong shop [snap lamp 5, snap lamp 3] = [LowStockAlert 2 ''Lamp'' 7 10]"
    by code_simp
  from pure updateStockItem_events [of st item] loop run show ?thesis by blast
qed

section \<open>Stock of untracked and backorder products\<close>





section \<open>Two orders for the last unit\<close>

text \<open>
  C1. The widget has stock 1, tracks its quantity and allows no backorder. A
  \<^verbatim>\<open>createOrder\<close> call for one widget passes \<^verbatim>\<open>isInStock\<close> and ends in the \<^verbatim>\<open>catch\<close> of
  \<^verbatim>\<open>Order.create\<close>; of two such calls, the second started while the first awaits, both
  answer with the internal error, no order is stored and the stock stays 1: neither
  succeeds and neither reports insufficient stock. \<^verbatim>\<open>handleNewOrder\<close>, where the stock is
  subtracted, reads, subtracts and saves: run for two orders of one widget each, the first
  run leaves stock 0 and the second is thrown out by the rejected \<^verbatim>\<open>product.save()\<close> with
  the internal error.
\<close>

theorem createOrder_concurrent_none_succeeds:
  "map_option stock (Product_findById shop 1) = Some 1 \<and>
   map_option trackQuantity (Product_findById shop 1) = Some True \<and>
   map_option allowBackorder (Product_findById shop 1) = Some False \<and>
   createOrder 5 shop (buy 7 1 1 None) = (shop, Inl InternalError) \<and>
   createOrder_interleaved 5 shop (buy 7 1 1 None) (buy 8 1 1 None)
     = (shop, Inl InternalError, Inl InternalError) \<and>
   (case handleNewOrder shop (stored 0 7 [snap widget 1]) of
      (s1, rA) \<Rightarrow>
        rA = Inr () \<and> map_option stock (Product_findById s1 1) = Some 0 \<and>
        (case handleNewOrder s1 (stored 1 8 [snap widget 1]) of
           (s2, rB) \<Rightarrow>
             rB = Inl InternalError \<and> map_option stock (Product_findById s2 1) = Some 0))"
  by code_simp

end
